theory Spec2Isabelle
  imports Main
begin

section \<open>Data model of \<^verbatim>\<open>src/pages/student/BookRoom.tsx\<close>\<close>

text \<open>
  Identifiers are strings, as in the TypeScript interfaces. The two date columns hold
  ISO-8601 strings produced by \<^verbatim>\<open>new Date().toISOString()\<close>; the store orders them as points in
  time, so a timestamp is modelled by the number it denotes (milliseconds since the epoch).
  The field \<^verbatim>\<open>id\<close> of each interface carries a suffix, since \<open>id\<close> is the identity function
  of HOL.
\<close>

type_synonym timestamp = nat

record Room =
  id_Room :: string
  room_number :: string
  floor :: int
  capacity :: int
  price_per_month :: int

record RoomAllocation =
  id_RoomAllocation :: string
  room :: Room
  start_date :: timestamp
  end_date :: "timestamp option"

record RoomAllocationResponse =
  id_Response :: string
  start_date_Response :: timestamp
  end_date_Response :: "timestamp option"
  rooms :: Room

text \<open>The part of the authenticated user that the component reads: \<^verbatim>\<open>user.id\<close>.\<close>

record User =
  id_User :: string

section \<open>The external store\<close>

text \<open>
  Modelled from the spec: the client \<^verbatim>\<open>services/supabase\<close> and the hosted store behind it are
  not part of the source. Section 6 of the specification gives the schema
  \<^verbatim>\<open>rooms(id, room_number, floor, capacity, price_per_month)\<close> and
  \<^verbatim>\<open>room_allocations(id, student_id, room_id, start_date, end_date nullable)\<close>, and asks for
  filtered, sorted and limited selects with a join from an allocation to its room, a
  "not in subselect" filter, and row inserts.
\<close>

record allocation_row =
  id_row :: string
  student_id :: string
  room_id :: string
  start_date_row :: timestamp
  end_date_row :: "timestamp option"

text \<open>The object literal handed to \<^verbatim>\<open>insert\<close>: a row without its \<^verbatim>\<open>id\<close>.\<close>

record allocation_values =
  student_id_new :: string
  room_id_new :: string
  start_date_new :: timestamp
  end_date_new :: "timestamp option"

datatype store_error = PostgrestError string

text \<open>
  What the store answers to one request: the rows asked for, a null result without an
  error, or an error. The component distinguishes exactly these three shapes of
  \<^verbatim>\<open>{ data, error }\<close>.
\<close>

datatype outcome = Succeed | NullData | Fail store_error

text \<open>
  What \<^verbatim>\<open>.not('id', 'in', value)\<close> is handed as its value: a list of ids, or a query builder
  object. Lines 86 to 91 hand it the builder \<^verbatim>\<open>supabase.from('room_allocations').select('room_id').is('end_date', null)\<close>,
  which is not awaited.
\<close>

datatype filter_operand = IdList "string list" | QueryBuilder

datatype request =
  SelectLatestAllocation string
| SelectAvailableRooms filter_operand
| InsertAllocation allocation_values

text \<open>
  The backend holds the session of the auth provider, the two tables, and the behaviour
  of the network: \<open>outcomes b k\<close> is the outcome of the \<open>k\<close>-th request sent to the store,
  \<open>new_id b k\<close> the identifier the store gives to the \<open>k\<close>-th allocation row, and
  \<open>requests b\<close> records every request sent so far, in order.
\<close>

record backend =
  auth_user :: "User option"
  rooms_table :: "Room list"
  room_allocations :: "allocation_row list"
  outcomes :: "nat \<Rightarrow> outcome"
  new_id :: "nat \<Rightarrow> string"
  requests :: "request list"

text \<open>
  Modelled from the spec: the embedding \<^verbatim>\<open>rooms!inner (...)\<close> joins an allocation with the room
  its \<^verbatim>\<open>room_id\<close> references (\<^verbatim>\<open>rooms.id\<close> is the key of the table) and drops an allocation that
  has no such room.
\<close>

definition join_room :: "Room list \<Rightarrow> allocation_row \<Rightarrow> RoomAllocationResponse option" where
  "join_room rs a =
     map_option
       (\<lambda>r. \<lparr>id_Response = id_row a, start_date_Response = start_date_row a,
             end_date_Response = end_date_row a, rooms = r\<rparr>)
       (find (\<lambda>r. id_Room r = room_id a) rs)"

text \<open>\<^verbatim>\<open>.order('start_date', { ascending: false })\<close>\<close>

definition order_start_date_desc :: "RoomAllocationResponse list \<Rightarrow> RoomAllocationResponse list" where
  "order_start_date_desc xs = rev (sort_key start_date_Response xs)"

text \<open>\<^verbatim>\<open>.maybeSingle()\<close> after \<^verbatim>\<open>.limit(1)\<close>: the row if there is one, null otherwise.\<close>

definition maybeSingle :: "'a list \<Rightarrow> 'a option" where
  "maybeSingle xs = (case xs of [] \<Rightarrow> None | x # _ \<Rightarrow> Some x)"

text \<open>
  Modelled from the spec: the rows of the first query,
  \<^verbatim>\<open>.eq('student_id', user.id).order('start_date', { ascending: false }).limit(1).maybeSingle()\<close>.
\<close>

definition latest_allocation :: "backend \<Rightarrow> string \<Rightarrow> RoomAllocationResponse option" where
  "latest_allocation b uid =
     maybeSingle (take 1 (order_start_date_desc
       (List.map_filter (join_room (rooms_table b))
          (filter (\<lambda>a. student_id a = uid) (room_allocations b)))))"

text \<open>
  Modelled from the spec: the rows a filter \<^verbatim>\<open>not in\<close> over a list of ids leaves, every room
  whose \<^verbatim>\<open>id\<close> is not in the list.
\<close>

definition rooms_not_in :: "string list \<Rightarrow> backend \<Rightarrow> Room list" where
  "rooms_not_in ids b = filter (\<lambda>r. id_Room r \<notin> set ids) (rooms_table b)"

text \<open>
  Following the words of the specification (section 4.1, step 3), not the source: the rooms whose \<^verbatim>\<open>id\<close> is not among the \<^verbatim>\<open>room_id\<close> of the allocations with
  \<^verbatim>\<open>end_date\<close> null. It is what resolve is asked to return, to be compared with what the
  program shows.
\<close>

definition rooms_not_allocated :: "backend \<Rightarrow> Room list" where
  "rooms_not_allocated b =
     filter
       (\<lambda>r. id_Room r \<notin> set (map room_id (filter (\<lambda>a. end_date_row a = None) (room_allocations b))))
       (rooms_table b)"

text \<open>The errors the store itself raises when it refuses a request.\<close>

definition unparsed_filter :: store_error where
  "unparsed_filter = PostgrestError ''failed to parse filter (not.in.[object Object])''"

definition foreign_key_violation :: store_error where
  "foreign_key_violation = PostgrestError ''violates foreign key constraint''"

text \<open>Each request is recorded, then answered as \<open>outcomes\<close> says.\<close>

definition sent :: "request \<Rightarrow> backend \<Rightarrow> backend" where
  "sent q b = b\<lparr>requests := requests b @ [q]\<rparr>"

definition next_outcome :: "backend \<Rightarrow> outcome" where
  "next_outcome b = outcomes b (length (requests b))"

definition select_latest_allocation ::
  "string \<Rightarrow> backend \<Rightarrow> (RoomAllocationResponse option \<times> store_error option) \<times> backend" where
  "select_latest_allocation uid b =
     (case next_outcome b of
        Fail e \<Rightarrow> ((None, Some e), sent (SelectLatestAllocation uid) b)
      | NullData \<Rightarrow> ((None, None), sent (SelectLatestAllocation uid) b)
      | Succeed \<Rightarrow> ((latest_allocation b uid, None), sent (SelectLatestAllocation uid) b))"

text \<open>
  Modelled from the spec: the second query, \<^verbatim>\<open>from('rooms').select('*').not('id', 'in', value)\<close>.
  Section 6 asks the store for a filter \<^verbatim>\<open>not in\<close>; the store is sent the filter as text and
  reads its operand as a list of ids. A query builder that is not awaited sends no request
  of its own, and written into the filter it is the text \<^verbatim>\<open>[object Object]\<close>, which is no
  list: the store cannot read such a filter, and every request that reaches it with one is
  refused.
\<close>

definition select_available_rooms ::
  "filter_operand \<Rightarrow> backend \<Rightarrow> (Room list option \<times> store_error option) \<times> backend" where
  "select_available_rooms operand b =
     (case next_outcome b of
        Fail e \<Rightarrow> ((None, Some e), sent (SelectAvailableRooms operand) b)
      | NullData \<Rightarrow>
          (case operand of
             QueryBuilder \<Rightarrow> ((None, Some unparsed_filter), sent (SelectAvailableRooms operand) b)
           | IdList ids \<Rightarrow> ((None, None), sent (SelectAvailableRooms operand) b))
      | Succeed \<Rightarrow>
          (case operand of
             QueryBuilder \<Rightarrow> ((None, Some unparsed_filter), sent (SelectAvailableRooms operand) b)
           | IdList ids \<Rightarrow>
               ((Some (rooms_not_in ids b), None), sent (SelectAvailableRooms operand) b)))"

text \<open>
  Modelled from the spec: an insert answers with no data. The join of the first query runs
  along the reference from \<^verbatim>\<open>room_allocations.room_id\<close> to \<^verbatim>\<open>rooms.id\<close> (section 3: an allocation
  has a referenced room), and the store keeps that reference: a row whose \<^verbatim>\<open>room_id\<close> is the
  \<^verbatim>\<open>id\<close> of no room is refused. On an error the table is left as it was, otherwise the row
  is appended under the identifier the store assigns.
\<close>

definition stored :: "backend \<Rightarrow> allocation_values \<Rightarrow> allocation_row" where
  "stored b v =
     \<lparr>id_row = new_id b (length (room_allocations b)), student_id = student_id_new v,
      room_id = room_id_new v, start_date_row = start_date_new v,
      end_date_row = end_date_new v\<rparr>"

definition insert_allocation :: "allocation_values \<Rightarrow> backend \<Rightarrow> store_error option \<times> backend" where
  "insert_allocation v b =
     (case next_outcome b of
        Fail e \<Rightarrow> (Some e, sent (InsertAllocation v) b)
      | _ \<Rightarrow>
          (if room_id_new v \<in> id_Room ` set (rooms_table b)
           then (None,
                 sent (InsertAllocation v)
                   (b\<lparr>room_allocations := room_allocations b @ [stored b v]\<rparr>))
           else (Some foreign_key_violation, sent (InsertAllocation v) b)))"

section \<open>The component\<close>

text \<open>The five \<^verbatim>\<open>useState\<close> cells of \<^verbatim>\<open>BookRoom\<close>.\<close>

record view =
  loading :: bool
  currentAllocation :: "RoomAllocation option"
  availableRooms :: "Room list"
  error :: "string option"
  bookingInProgress :: bool

text \<open>What a \<^verbatim>\<open>try\<close> block can throw: \<^verbatim>\<open>new Error(msg)\<close> or the error object of the store.\<close>

datatype exn = Error string | Thrown store_error

text \<open>
  The whole state the two handlers run on: the backend, the component's cells and the lines
  written with \<^verbatim>\<open>console.error\<close>.
\<close>

record sys =
  backend :: backend
  view :: view
  console :: "(string \<times> exn) list"

definition setLoading :: "bool \<Rightarrow> sys \<Rightarrow> sys" where
  "setLoading v s = s\<lparr>view := (view s)\<lparr>loading := v\<rparr>\<rparr>"

definition setCurrentAllocation :: "RoomAllocation option \<Rightarrow> sys \<Rightarrow> sys" where
  "setCurrentAllocation v s = s\<lparr>view := (view s)\<lparr>currentAllocation := v\<rparr>\<rparr>"

definition setAvailableRooms :: "Room list \<Rightarrow> sys \<Rightarrow> sys" where
  "setAvailableRooms v s = s\<lparr>view := (view s)\<lparr>availableRooms := v\<rparr>\<rparr>"

definition setError :: "string option \<Rightarrow> sys \<Rightarrow> sys" where
  "setError v s = s\<lparr>view := (view s)\<lparr>error := v\<rparr>\<rparr>"

definition setBookingInProgress :: "bool \<Rightarrow> sys \<Rightarrow> sys" where
  "setBookingInProgress v s = s\<lparr>view := (view s)\<lparr>bookingInProgress := v\<rparr>\<rparr>"

definition console_error :: "string \<Rightarrow> exn \<Rightarrow> sys \<Rightarrow> sys" where
  "console_error label e s = s\<lparr>console := console s @ [(label, e)]\<rparr>"

definition initial_view :: view where
  "initial_view =
     \<lparr>loading = True, currentAllocation = None, availableRooms = [], error = None,
      bookingInProgress = False\<rparr>"

subsection \<open>\<^verbatim>\<open>fetchCurrentAllocationAndRooms\<close>\<close>

text \<open>
  The \<^verbatim>\<open>try\<close> block (lines 38 to 99). The result is the exception that left the block, if
  any, and the state at that point: what was set or logged before a \<^verbatim>\<open>throw\<close> stays.
\<close>

definition fetch_try :: "sys \<Rightarrow> exn option \<times> sys" where
  "fetch_try s0 =
     (let s1 = setLoading True s0 in
      case auth_user (backend s1) of
        None \<Rightarrow> (Some (Error ''Not authenticated''), s1)
      | Some user \<Rightarrow>
          (let ((allocationData, allocationError), b2) =
                 select_latest_allocation (id_User user) (backend s1);
               s2 = s1\<lparr>backend := b2\<rparr>
           in case allocationError of
                Some e \<Rightarrow>
                  (Some (Thrown e), console_error ''Error fetching allocation:'' (Thrown e) s2)
              | None \<Rightarrow>
                  (case allocationData of
                     Some typedData \<Rightarrow>
                       (None,
                        setCurrentAllocation
                          (Some \<lparr>id_RoomAllocation = id_Response typedData,
                                 room = rooms typedData,
                                 start_date = start_date_Response typedData,
                                 end_date = end_date_Response typedData\<rparr>) s2)
                   | None \<Rightarrow>
                       (let ((roomsData, roomsError), b3) =
                              select_available_rooms QueryBuilder (backend s2);
                            s3 = s2\<lparr>backend := b3\<rparr>
                        in case roomsError of
                             Some e \<Rightarrow>
                               (Some (Thrown e),
                                console_error ''Error fetching rooms:'' (Thrown e) s3)
                           | None \<Rightarrow>
                               (None,
                                setAvailableRooms
                                  (case roomsData of Some rs \<Rightarrow> rs | None \<Rightarrow> []) s3)))))"

text \<open>The \<^verbatim>\<open>catch\<close> clause (lines 100 to 102) and the \<^verbatim>\<open>finally\<close> clause (lines 103 to 105).\<close>

definition fetch_catch :: "exn \<Rightarrow> sys \<Rightarrow> sys" where
  "fetch_catch err s = setError (Some ''Failed to fetch room details'') (console_error ''Error:'' err s)"

definition fetchCurrentAllocationAndRooms :: "sys \<Rightarrow> sys" where
  "fetchCurrentAllocationAndRooms s0 =
     (let (thrown, s1) = fetch_try s0;
          s2 = (case thrown of Some err \<Rightarrow> fetch_catch err s1 | None \<Rightarrow> s1)
      in setLoading False s2)"

subsection \<open>\<^verbatim>\<open>handleBookRoom\<close>\<close>

text \<open>
  The \<^verbatim>\<open>try\<close> block (lines 109 to 128); \<open>now\<close> is the reading of the clock that
  \<^verbatim>\<open>new Date()\<close> takes.
\<close>

definition book_try :: "timestamp \<Rightarrow> string \<Rightarrow> sys \<Rightarrow> exn option \<times> sys" where
  "book_try now roomId s0 =
     (let s1 = setBookingInProgress True s0 in
      case auth_user (backend s1) of
        None \<Rightarrow> (Some (Error ''Not authenticated''), s1)
      | Some user \<Rightarrow>
          (let (bookingError, b2) =
                 insert_allocation
                   \<lparr>student_id_new = id_User user, room_id_new = roomId,
                    start_date_new = now, end_date_new = None\<rparr> (backend s1);
               s2 = s1\<lparr>backend := b2\<rparr>
           in case bookingError of
                Some e \<Rightarrow> (Some (Thrown e), s2)
              | None \<Rightarrow> (None, fetchCurrentAllocationAndRooms s2)))"

definition book_catch :: "exn \<Rightarrow> sys \<Rightarrow> sys" where
  "book_catch err s =
     setError (Some ''Failed to book room. Please try again.'')
       (console_error ''Error booking room:'' err s)"

definition handleBookRoom :: "timestamp \<Rightarrow> string \<Rightarrow> sys \<Rightarrow> sys" where
  "handleBookRoom now roomId s0 =
     (let (thrown, s1) = book_try now roomId s0;
          s2 = (case thrown of Some err \<Rightarrow> book_catch err s1 | None \<Rightarrow> s1)
      in setBookingInProgress False s2)"

section \<open>A small store for the examples\<close>

text \<open>
  The scenario of the specification: rooms R1 (floor 1, two persons, 500 a month) and R2
  (floor 2, one person, 600 a month), students A and B, and a store that answers every
  request.
\<close>

definition R1 :: Room where
  "R1 = \<lparr>id_Room = ''R1'', room_number = ''101'', floor = 1, capacity = 2, price_per_month = 500\<rparr>"

definition R2 :: Room where
  "R2 = \<lparr>id_Room = ''R2'', room_number = ''201'', floor = 2, capacity = 1, price_per_month = 600\<rparr>"

definition studentA :: User where
  "studentA = \<lparr>id_User = ''studentA''\<rparr>"

definition studentB :: User where
  "studentB = \<lparr>id_User = ''studentB''\<rparr>"

definition always :: "outcome \<Rightarrow> nat \<Rightarrow> outcome" where
  "always oc k = oc"

text \<open>\<open>then_outcome oc rest\<close>: the next request gets \<open>oc\<close>, the later ones what \<open>rest\<close> says.\<close>

definition then_outcome :: "outcome \<Rightarrow> (nat \<Rightarrow> outcome) \<Rightarrow> nat \<Rightarrow> outcome" where
  "then_outcome oc rest k = (case k of 0 \<Rightarrow> oc | Suc j \<Rightarrow> rest j)"

definition example_backend ::
  "User option \<Rightarrow> allocation_row list \<Rightarrow> (nat \<Rightarrow> outcome) \<Rightarrow> backend" where
  "example_backend who rows oc =
     \<lparr>auth_user = who, rooms_table = [R1, R2], room_allocations = rows, outcomes = oc,
      new_id = (\<lambda>k. replicate (Suc k) CHR ''n''), requests = []\<rparr>"

text \<open>The component as it is mounted, before the effect of line 33 runs.\<close>

definition mounted :: "backend \<Rightarrow> sys" where
  "mounted b = \<lparr>backend = b, view = initial_view, console = []\<rparr>"

definition past_stay :: allocation_row where
  "past_stay =
     \<lparr>id_row = ''p'', student_id = ''studentA'', room_id = ''R1'', start_date_row = 10,
      end_date_row = Some 15\<rparr>"

definition open_stay :: allocation_row where
  "open_stay =
     \<lparr>id_row = ''q'', student_id = ''studentA'', room_id = ''R2'', start_date_row = 20,
      end_date_row = None\<rparr>"

definition planned_stay :: allocation_row where
  "planned_stay =
     \<lparr>id_row = ''f'', student_id = ''studentA'', room_id = ''R2'', start_date_row = 100,
      end_date_row = Some 200\<rparr>"

definition future_stay :: allocation_row where
  "future_stay =
     \<lparr>id_row = ''g'', student_id = ''studentA'', room_id = ''R2'', start_date_row = 100,
      end_date_row = None\<rparr>"

text \<open>
  The scenario of section 8: student A resolves, books R1 at time \<open>now\<close>, and student B
  then opens the page against the same store.
\<close>

definition scenario_resolved :: sys where
  "scenario_resolved =
     fetchCurrentAllocationAndRooms (mounted (example_backend (Some studentA) [] (always Succeed)))"

definition scenario_booked :: "timestamp \<Rightarrow> sys" where
  "scenario_booked now = handleBookRoom now ''R1'' scenario_resolved"

definition scenario_other :: "timestamp \<Rightarrow> sys" where
  "scenario_other now =
     fetchCurrentAllocationAndRooms
       (mounted ((backend (scenario_booked now))\<lparr>auth_user := Some studentB\<rparr>))"

section \<open>Unfolding rules\<close>

lemmas setter_defs = setLoading_def setCurrentAllocation_def setAvailableRooms_def setError_def
  setBookingInProgress_def console_error_def

lemmas store_defs = select_latest_allocation_def select_available_rooms_def insert_allocation_def
  sent_def next_outcome_def

lemmas fetch_defs = fetchCurrentAllocationAndRooms_def fetch_try_def fetch_catch_def

lemmas book_defs = handleBookRoom_def book_try_def book_catch_def

lemmas all_defs = fetch_defs book_defs setter_defs store_defs stored_def latest_allocation_def
  rooms_not_in_def rooms_not_allocated_def unparsed_filter_def foreign_key_violation_def
  maybeSingle_def order_start_date_desc_def join_room_def List.map_filter_def

lemmas example_defs = R1_def R2_def studentA_def studentB_def always_def then_outcome_def
  example_backend_def mounted_def initial_view_def past_stay_def open_stay_def planned_stay_def
  future_stay_def

lemmas scenario_defs = scenario_resolved_def scenario_booked_def scenario_other_def

section \<open>The store's queries\<close>

text \<open>The last element of an ascending sort has the greatest key.\<close>

lemma sorted_le_last: "sorted ys \<Longrightarrow> y \<in> set ys \<Longrightarrow> y \<le> last ys"
  by (induction ys) auto

lemma sort_key_last_max:
  assumes "xs \<noteq> []"
  shows "last (sort_key f xs) \<in> set xs \<and> (\<forall>y\<in>set xs. f y \<le> f (last (sort_key f xs)))"
proof -
  let ?zs = "sort_key f xs"
  have ne: "?zs \<noteq> []" using assms by (metis length_sort length_0_conv)
  have mem: "last ?zs \<in> set xs" using last_in_set [OF ne] by simp
  have "\<forall>y\<in>set xs. f y \<le> f (last ?zs)"
  proof
    fix y assume "y \<in> set xs"
    then have "f y \<in> set (map f ?zs)" by simp
    then have "f y \<le> last (map f ?zs)" by (rule sorted_le_last [OF sorted_sort_key])
    then show "f y \<le> f (last ?zs)" using ne by (simp add: last_map)
  qed
  with mem show ?thesis by simp
qed

text \<open>So the first row of the descending order is one with the latest start.\<close>

lemma first_of_order_desc:
  assumes "xs \<noteq> []"
  shows "\<exists>x\<in>set xs. maybeSingle (take 1 (order_start_date_desc xs)) = Some x \<and>
           (\<forall>y\<in>set xs. start_date_Response y \<le> start_date_Response x)"
proof -
  let ?zs = "sort_key start_date_Response xs"
  have ne: "?zs \<noteq> []" using assms by (metis length_sort length_0_conv)
  then obtain z zs where rv: "rev ?zs = z # zs" by (cases "rev ?zs") auto
  then have "z = last ?zs" using ne by (metis hd_rev list.sel(1))
  moreover have "maybeSingle (take 1 (order_start_date_desc xs)) = Some z"
    by (simp add: maybeSingle_def order_start_date_desc_def rv)
  ultimately show ?thesis using sort_key_last_max [OF assms, of start_date_Response] by auto
qed

lemma set_map_filter: "set (List.map_filter f ys) = {x. \<exists>y\<in>set ys. f y = Some x}"
  by (auto simp: List.map_filter_def intro: rev_image_eqI)

lemma join_room_Some:
  "join_room rs a = Some d \<longleftrightarrow>
     (\<exists>r. find (\<lambda>r. id_Room r = room_id a) rs = Some r \<and>
          d = \<lparr>id_Response = id_row a, start_date_Response = start_date_row a,
             end_date_Response = end_date_row a, rooms = r\<rparr>)"
  by (auto simp: join_room_def)

lemma find_referenced:
  "room_id a \<in> id_Room ` set rs \<Longrightarrow> \<exists>r. find (\<lambda>r. id_Room r = room_id a) rs = Some r"
  by (cases "find (\<lambda>r. id_Room r = room_id a) rs") (auto simp: find_None_iff)

lemma find_room:
  "x \<in> id_Room ` set rs \<Longrightarrow> \<exists>r. find (\<lambda>r. id_Room r = x) rs = Some r \<and> id_Room r = x"
  by (cases "find (\<lambda>r. id_Room r = x) rs") (auto simp: find_None_iff dest: find_Some_iff [THEN iffD1])

lemma latest_allocation_None:
  "\<forall>a\<in>set (room_allocations b). student_id a \<noteq> uid \<Longrightarrow> latest_allocation b uid = None"
proof -
  assume "\<forall>a\<in>set (room_allocations b). student_id a \<noteq> uid"
  then have "filter (\<lambda>a. student_id a = uid) (room_allocations b) = []"
    by (simp add: filter_empty_conv)
  then show ?thesis
    by (simp add: latest_allocation_def List.map_filter_def maybeSingle_def order_start_date_desc_def)
qed

lemma latest_allocation_SomeD:
  assumes "latest_allocation b uid = Some d"
  shows "\<exists>a\<in>set (room_allocations b). student_id a = uid \<and> join_room (rooms_table b) a = Some d \<and>
           (\<forall>a'\<in>set (room_allocations b). \<forall>d'. student_id a' = uid \<longrightarrow>
               join_room (rooms_table b) a' = Some d' \<longrightarrow> start_date_row a' \<le> start_date_row a)"
proof -
  let ?own = "filter (\<lambda>a. student_id a = uid) (room_allocations b)"
  let ?js = "List.map_filter (join_room (rooms_table b)) ?own"
  have "?js \<noteq> []"
    using assms by (auto simp: latest_allocation_def maybeSingle_def order_start_date_desc_def)
  from first_of_order_desc [OF this] obtain x where
    x: "x \<in> set ?js" "maybeSingle (take 1 (order_start_date_desc ?js)) = Some x"
       "\<forall>y\<in>set ?js. start_date_Response y \<le> start_date_Response x" by blast
  from x(2) assms have xd: "x = d" by (simp add: latest_allocation_def)
  from x(1) obtain a where a: "a \<in> set ?own" "join_room (rooms_table b) a = Some x"
    by (auto simp: set_map_filter)
  have "start_date_row a' \<le> start_date_row a"
    if "a' \<in> set (room_allocations b)" "student_id a' = uid" "join_room (rooms_table b) a' = Some d'"
    for a' d'
  proof -
    from that have "d' \<in> set ?js" by (auto simp: set_map_filter)
    with x(3) have "start_date_Response d' \<le> start_date_Response x" by blast
    with that(3) a(2) show ?thesis by (auto simp: join_room_Some)
  qed
  with a xd show ?thesis by auto
qed

lemma latest_allocation_exists:
  assumes "a \<in> set (room_allocations b)" "student_id a = uid" "join_room (rooms_table b) a = Some d"
  shows "\<exists>d'. latest_allocation b uid = Some d'"
proof -
  let ?own = "filter (\<lambda>a. student_id a = uid) (room_allocations b)"
  let ?js = "List.map_filter (join_room (rooms_table b)) ?own"
  from assms have "d \<in> set ?js" by (auto simp: set_map_filter)
  then have "?js \<noteq> []" by auto
  from first_of_order_desc [OF this] show ?thesis by (auto simp: latest_allocation_def)
qed

lemma latest_allocation_Some:
  assumes a0: "a0 \<in> set (room_allocations b)" "student_id a0 = uid"
    and refs: "\<forall>a\<in>set (room_allocations b). student_id a = uid \<longrightarrow> room_id a \<in> id_Room ` set (rooms_table b)"
  shows "\<exists>a r. a \<in> set (room_allocations b) \<and> student_id a = uid \<and>
           find (\<lambda>r. id_Room r = room_id a) (rooms_table b) = Some r \<and>
           (\<forall>a'\<in>set (room_allocations b). student_id a' = uid \<longrightarrow> start_date_row a' \<le> start_date_row a) \<and>
           latest_allocation b uid =
             Some \<lparr>id_Response = id_row a, start_date_Response = start_date_row a,
               end_date_Response = end_date_row a, rooms = r\<rparr>"
proof -
  let ?own = "filter (\<lambda>a. student_id a = uid) (room_allocations b)"
  let ?js = "List.map_filter (join_room (rooms_table b)) ?own"
  have joined: "\<exists>d. join_room (rooms_table b) a = Some d" if "a \<in> set ?own" for a
    using that refs find_referenced [of a "rooms_table b"] by (auto simp: join_room_def)
  from a0 have "a0 \<in> set ?own" by simp
  with joined obtain d0 where "join_room (rooms_table b) a0 = Some d0" by blast
  with \<open>a0 \<in> set ?own\<close> have "d0 \<in> set ?js" by (auto simp: set_map_filter)
  then have "?js \<noteq> []" by auto
  from first_of_order_desc [OF this] obtain x where
    x: "x \<in> set ?js" "maybeSingle (take 1 (order_start_date_desc ?js)) = Some x"
       "\<forall>y\<in>set ?js. start_date_Response y \<le> start_date_Response x" by blast
  from x(1) obtain a where a: "a \<in> set ?own" "join_room (rooms_table b) a = Some x"
    by (auto simp: set_map_filter)
  from a(2) obtain r where r: "find (\<lambda>r. id_Room r = room_id a) (rooms_table b) = Some r"
    "x = \<lparr>id_Response = id_row a, start_date_Response = start_date_row a,
             end_date_Response = end_date_row a, rooms = r\<rparr>"
    by (auto simp: join_room_Some)
  have "start_date_row a' \<le> start_date_row a" if "a' \<in> set (room_allocations b)" "student_id a' = uid" for a'
  proof -
    from that have own: "a' \<in> set ?own" by simp
    with joined obtain d' where d': "join_room (rooms_table b) a' = Some d'" by blast
    with own have "d' \<in> set ?js" by (auto simp: set_map_filter)
    with x(3) have "start_date_Response d' \<le> start_date_Response x" by blast
    with d' r(2) show ?thesis by (auto simp: join_room_Some)
  qed
  with a r x(2) show ?thesis by (auto simp: latest_allocation_def)
qed

lemma select_latest_found:
  "fst (select_latest_allocation uid b) = (Some d, None) \<longleftrightarrow>
     next_outcome b = Succeed \<and> latest_allocation b uid = Some d"
  by (simp add: select_latest_allocation_def split: outcome.splits)

text \<open>
  Handed the room ids of the allocations with a null end date as a list, the filter would
  leave the rooms the specification asks for.
\<close>

lemma rooms_not_in_open_ids:
  "rooms_not_in (map room_id (filter (\<lambda>a. end_date_row a = None) (room_allocations b))) b =
     rooms_not_allocated b"
  by (simp add: rooms_not_in_def rooms_not_allocated_def)

text \<open>Handed the query builder, the second query is refused whatever the network does.\<close>

lemma select_available_rooms_builder:
  "select_available_rooms QueryBuilder b =
     ((None, Some (case next_outcome b of Fail e \<Rightarrow> e | _ \<Rightarrow> unparsed_filter)),
      sent (SelectAvailableRooms QueryBuilder) b)"
  by (simp add: select_available_rooms_def split: outcome.splits)

text \<open>An insert either appends its row, which then names a room, or changes no table.\<close>

lemma insert_allocation_accepted:
  assumes "fst (insert_allocation v b) = None"
  shows "insert_allocation v b =
           (None, sent (InsertAllocation v) (b\<lparr>room_allocations := room_allocations b @ [stored b v]\<rparr>))"
    and "room_id_new v \<in> id_Room ` set (rooms_table b)"
  using assms by (auto simp: insert_allocation_def split: outcome.splits if_splits)

lemma insert_allocation_refused:
  "fst (insert_allocation v b) = Some e \<Longrightarrow>
   insert_allocation v b = (Some e, sent (InsertAllocation v) b)"
  by (auto simp: insert_allocation_def split: outcome.splits if_splits)

text \<open>Recording a request changes neither table.\<close>

lemma next_outcome_sent: "next_outcome (sent q b) = outcomes b (Suc (length (requests b)))"
  by (simp add: next_outcome_def sent_def)

lemma latest_allocation_sent: "latest_allocation (sent q b) uid = latest_allocation b uid"
  by (simp add: latest_allocation_def sent_def)

section \<open>The paths through \<^verbatim>\<open>fetchCurrentAllocationAndRooms\<close>\<close>

lemma fetch_unauthenticated:
  "auth_user (backend s) = None \<Longrightarrow>
   fetchCurrentAllocationAndRooms s =
     s\<lparr>view := (view s)\<lparr>loading := False, error := Some ''Failed to fetch room details''\<rparr>,
       console := console s @ [(''Error:'', Error ''Not authenticated'')]\<rparr>"
  by (simp add: fetch_defs setter_defs)

lemma fetch_first_query_fails:
  "auth_user (backend s) = Some user \<Longrightarrow> next_outcome (backend s) = Fail e \<Longrightarrow>
   fetchCurrentAllocationAndRooms s =
     s\<lparr>backend := sent (SelectLatestAllocation (id_User user)) (backend s),
       view := (view s)\<lparr>loading := False, error := Some ''Failed to fetch room details''\<rparr>,
       console := console s @ [(''Error fetching allocation:'', Thrown e), (''Error:'', Thrown e)]\<rparr>"
  by (simp add: fetch_defs setter_defs select_latest_allocation_def)

lemma fetch_found:
  "auth_user (backend s) = Some user \<Longrightarrow> next_outcome (backend s) = Succeed \<Longrightarrow>
   latest_allocation (backend s) (id_User user) = Some d \<Longrightarrow>
   fetchCurrentAllocationAndRooms s =
     s\<lparr>backend := sent (SelectLatestAllocation (id_User user)) (backend s),
       view := (view s)\<lparr>loading := False,
          currentAllocation := Some \<lparr>id_RoomAllocation = id_Response d, room = rooms d,
             start_date = start_date_Response d, end_date = end_date_Response d\<rparr>\<rparr>\<rparr>"
  by (simp add: fetch_defs setter_defs select_latest_allocation_def)

lemma fetch_no_allocation:
  assumes "auth_user (backend s) = Some user"
    and "fst (select_latest_allocation (id_User user) (backend s)) = (None, None)"
  shows "fetchCurrentAllocationAndRooms s =
     s\<lparr>backend := sent (SelectAvailableRooms QueryBuilder)
                    (sent (SelectLatestAllocation (id_User user)) (backend s)),
       view := (view s)\<lparr>loading := False, error := Some ''Failed to fetch room details''\<rparr>,
       console := console s @
         [(''Error fetching rooms:'',
           Thrown (case outcomes (backend s) (Suc (length (requests (backend s)))) of
                     Fail e \<Rightarrow> e | _ \<Rightarrow> unparsed_filter)),
          (''Error:'',
           Thrown (case outcomes (backend s) (Suc (length (requests (backend s)))) of
                     Fail e \<Rightarrow> e | _ \<Rightarrow> unparsed_filter))]\<rparr>"
proof -
  from assms(2) have "select_latest_allocation (id_User user) (backend s) =
      ((None, None), sent (SelectLatestAllocation (id_User user)) (backend s))"
    by (auto simp: select_latest_allocation_def split: outcome.splits)
  with assms(1) show ?thesis
    by (simp add: fetch_defs setter_defs select_available_rooms_builder next_outcome_sent)
qed

lemma fetch_failed_view:
  "fst (fetch_try s) = Some err \<Longrightarrow>
   view (fetchCurrentAllocationAndRooms s) =
     (view s)\<lparr>loading := False, error := Some ''Failed to fetch room details''\<rparr>"
  by (auto simp add: fetch_defs setter_defs select_latest_allocation_def
      select_available_rooms_builder Let_def split: option.splits outcome.splits prod.splits)

lemma fetch_keeps_tables:
  "room_allocations (backend (fetchCurrentAllocationAndRooms s)) = room_allocations (backend s) \<and>
   rooms_table (backend (fetchCurrentAllocationAndRooms s)) = rooms_table (backend s)"
  by (auto simp add: fetch_defs setter_defs select_latest_allocation_def
      select_available_rooms_builder sent_def Let_def split: option.splits outcome.splits prod.splits)

text \<open>With the second query always refused, no run of resolve sets the list of available rooms.\<close>

lemma fetch_keeps_availableRooms:
  "availableRooms (view (fetchCurrentAllocationAndRooms s)) = availableRooms (view s)"
  by (auto simp add: fetch_defs setter_defs select_latest_allocation_def
      select_available_rooms_builder sent_def Let_def split: option.splits outcome.splits prod.splits)

section \<open>The paths through \<^verbatim>\<open>handleBookRoom\<close>\<close>

lemma book_unauthenticated:
  "auth_user (backend s) = None \<Longrightarrow>
   handleBookRoom now roomId s =
     s\<lparr>view := (view s)\<lparr>error := Some ''Failed to book room. Please try again.'',
                 bookingInProgress := False\<rparr>,
       console := console s @ [(''Error booking room:'', Error ''Not authenticated'')]\<rparr>"
  by (simp add: book_defs setter_defs)

lemma book_insert_fails:
  assumes "auth_user (backend s) = Some user"
    and "fst (insert_allocation \<lparr>student_id_new = id_User user, room_id_new = roomId,
                start_date_new = now, end_date_new = None\<rparr> (backend s)) = Some e"
  shows "handleBookRoom now roomId s =
     s\<lparr>backend := sent (InsertAllocation \<lparr>student_id_new = id_User user, room_id_new = roomId,
                       start_date_new = now, end_date_new = None\<rparr>) (backend s),
       view := (view s)\<lparr>error := Some ''Failed to book room. Please try again.'',
                 bookingInProgress := False\<rparr>,
       console := console s @ [(''Error booking room:'', Thrown e)]\<rparr>"
  using assms(1) insert_allocation_refused [OF assms(2)]
  by (simp add: book_defs setter_defs)

lemma book_inserted:
  assumes "auth_user (backend s) = Some user"
    and "fst (insert_allocation \<lparr>student_id_new = id_User user, room_id_new = roomId,
                start_date_new = now, end_date_new = None\<rparr> (backend s)) = None"
  shows "handleBookRoom now roomId s =
     setBookingInProgress False
       (fetchCurrentAllocationAndRooms
          (s\<lparr>view := (view s)\<lparr>bookingInProgress := True\<rparr>,
             backend :=
               sent (InsertAllocation \<lparr>student_id_new = id_User user, room_id_new = roomId,
                       start_date_new = now, end_date_new = None\<rparr>)
                 ((backend s)\<lparr>room_allocations := room_allocations (backend s) @
                     [\<lparr>id_row = new_id (backend s) (length (room_allocations (backend s))),
                       student_id = id_User user, room_id = roomId, start_date_row = now,
                       end_date_row = None\<rparr>]\<rparr>)\<rparr>))"
  using assms(1) insert_allocation_accepted(1) [OF assms(2)]
  by (simp add: book_defs setter_defs stored_def)

section \<open>The claims\<close>

text \<open>
  Claim C1. Let the authenticated identity have at least one allocation record, ended or
  not, let the store answer the first query, and let each of the identity's records
  reference a room of the store (the join is an inner one). Then resolve shows one of the
  identity's allocations, none of the identity's allocations starts later than it, it is
  joined with its room, the list of available rooms is left as it was, and the only request
  sent is the first query: the available rooms are never asked for.
\<close>

theorem C1_resolve_latest_allocation:
  assumes auth: "auth_user (backend s) = Some user"
    and answered: "next_outcome (backend s) = Succeed"
    and has: "a0 \<in> set (room_allocations (backend s))" "student_id a0 = id_User user"
    and refs: "\<forall>a\<in>set (room_allocations (backend s)).
                 student_id a = id_User user \<longrightarrow> room_id a \<in> id_Room ` set (rooms_table (backend s))"
  shows "\<exists>a r. a \<in> set (room_allocations (backend s)) \<and> student_id a = id_User user \<and>
           (\<forall>a'\<in>set (room_allocations (backend s)).
               student_id a' = id_User user \<longrightarrow> start_date_row a' \<le> start_date_row a) \<and>
           find (\<lambda>r. id_Room r = room_id a) (rooms_table (backend s)) = Some r \<and>
           currentAllocation (view (fetchCurrentAllocationAndRooms s)) =
             Some \<lparr>id_RoomAllocation = id_row a, room = r, start_date = start_date_row a,
                   end_date = end_date_row a\<rparr> \<and>
           availableRooms (view (fetchCurrentAllocationAndRooms s)) = availableRooms (view s) \<and>
           requests (backend (fetchCurrentAllocationAndRooms s)) =
             requests (backend s) @ [SelectLatestAllocation (id_User user)]"
proof -
  from latest_allocation_Some [OF has refs] obtain a r where
    a: "a \<in> set (room_allocations (backend s))" "student_id a = id_User user"
       "find (\<lambda>r. id_Room r = room_id a) (rooms_table (backend s)) = Some r"
       "\<forall>a'\<in>set (room_allocations (backend s)).
           student_id a' = id_User user \<longrightarrow> start_date_row a' \<le> start_date_row a"
    and d: "latest_allocation (backend s) (id_User user) =
             Some \<lparr>id_Response = id_row a, start_date_Response = start_date_row a,
               end_date_Response = end_date_row a, rooms = r\<rparr>"
    by blast
  have "fetchCurrentAllocationAndRooms s =
     s\<lparr>backend := sent (SelectLatestAllocation (id_User user)) (backend s),
       view := (view s)\<lparr>loading := False,
          currentAllocation := Some \<lparr>id_RoomAllocation = id_row a, room = r,
             start_date = start_date_row a, end_date = end_date_row a\<rparr>\<rparr>\<rparr>"
    using fetch_found [OF auth answered d] by simp
  then have "currentAllocation (view (fetchCurrentAllocationAndRooms s)) =
             Some \<lparr>id_RoomAllocation = id_row a, room = r, start_date = start_date_row a,
                   end_date = end_date_row a\<rparr>"
    and "availableRooms (view (fetchCurrentAllocationAndRooms s)) = availableRooms (view s)"
    and "requests (backend (fetchCurrentAllocationAndRooms s)) =
             requests (backend s) @ [SelectLatestAllocation (id_User user)]"
    by (simp_all add: sent_def)
  with a show ?thesis by blast
qed

theorem C1_resolve_latest_allocation_witness:
  "auth_user (backend (mounted (example_backend (Some studentA) [open_stay, planned_stay]
      (always Succeed)))) = Some studentA \<and>
   currentAllocation (view (fetchCurrentAllocationAndRooms
      (mounted (example_backend (Some studentA) [open_stay, planned_stay] (always Succeed))))) =
     Some \<lparr>id_RoomAllocation = ''f'', room = R2, start_date = 100, end_date = Some 200\<rparr>"
proof -
  let ?s = "mounted (example_backend (Some studentA) [open_stay, planned_stay] (always Succeed))"
  have h1: "auth_user (backend ?s) = Some studentA" by (simp add: example_defs)
  have h2: "next_outcome (backend ?s) = Succeed" by (simp add: example_defs next_outcome_def)
  have h3: "open_stay \<in> set (room_allocations (backend ?s))" by (simp add: example_defs)
  have h4: "student_id open_stay = id_User studentA" by (simp add: example_defs)
  have h5: "\<forall>a\<in>set (room_allocations (backend ?s)).
                 student_id a = id_User studentA \<longrightarrow> room_id a \<in> id_Room ` set (rooms_table (backend ?s))"
    by (simp add: example_defs)
  show ?thesis
    using C1_resolve_latest_allocation [OF h1 h2 h3 h4 h5]
    by (auto simp: example_defs)
qed

text \<open>
  Claim C2 asks that, for an identity with no allocation record, resolve return exactly the
  rooms whose id is not the room id of an allocation with a null end timestamp. The program
  does not: lines 86 to 91 hand the filter a query builder where the list of those room ids
  belongs, so the second query carries no such list and is refused. For every authenticated
  identity with no allocation record whose first query is answered, resolve sends the two
  queries, shows \<^verbatim>\<open>Failed to fetch room details\<close> and leaves the list of available rooms as it
  was, whatever the store holds.
\<close>

theorem C2_resolve_rooms_query_refused:
  assumes auth: "auth_user (backend s) = Some user"
    and answered: "next_outcome (backend s) = Succeed"
    and none: "\<forall>a\<in>set (room_allocations (backend s)). student_id a \<noteq> id_User user"
  shows "requests (backend (fetchCurrentAllocationAndRooms s)) =
           requests (backend s) @
             [SelectLatestAllocation (id_User user), SelectAvailableRooms QueryBuilder] \<and>
         error (view (fetchCurrentAllocationAndRooms s)) = Some ''Failed to fetch room details'' \<and>
         availableRooms (view (fetchCurrentAllocationAndRooms s)) = availableRooms (view s)"
proof -
  have "latest_allocation (backend s) (id_User user) = None"
    using none by (rule latest_allocation_None)
  with answered have "fst (select_latest_allocation (id_User user) (backend s)) = (None, None)"
    by (simp add: select_latest_allocation_def)
  from fetch_no_allocation [OF auth this] show ?thesis
    by (simp add: sent_def)
qed

theorem C2_resolve_rooms_query_refused_witness:
  "rooms_not_allocated (backend
      (mounted (example_backend (Some studentB) [past_stay, open_stay] (always Succeed)))) = [R1] \<and>
   availableRooms (view (fetchCurrentAllocationAndRooms
      (mounted (example_backend (Some studentB) [past_stay, open_stay] (always Succeed))))) = [] \<and>
   error (view (fetchCurrentAllocationAndRooms
      (mounted (example_backend (Some studentB) [past_stay, open_stay] (always Succeed))))) =
     Some ''Failed to fetch room details'' \<and>
   requests (backend (fetchCurrentAllocationAndRooms
      (mounted (example_backend (Some studentB) [past_stay, open_stay] (always Succeed))))) =
     [SelectLatestAllocation ''studentB'', SelectAvailableRooms QueryBuilder]"
proof -
  let ?s = "mounted (example_backend (Some studentB) [past_stay, open_stay] (always Succeed))"
  have s1: "auth_user (backend ?s) = Some studentB" by (simp add: example_defs)
  have s2: "next_outcome (backend ?s) = Succeed" by (simp add: example_defs next_outcome_def)
  have s3: "\<forall>a\<in>set (room_allocations (backend ?s)). student_id a \<noteq> id_User studentB"
    by (simp add: example_defs)
  have s4: "rooms_not_allocated (backend ?s) = [R1]"
    by (simp add: example_defs rooms_not_allocated_def)
  show ?thesis
    using C2_resolve_rooms_query_refused [OF s1 s2 s3] s4
    by (simp add: example_defs)
qed

text \<open>
  Claim C3, as amended. For an authenticated identity and any room identifier, a book whose
  insert reports no error appends exactly the record with student the identity, room
  \<open>roomId\<close>, start \<open>now\<close> and a null end. If moreover every allocation record the identity
  already has starts before \<open>now\<close> and the store answers the refresh, then \<open>roomId\<close> is the
  id of a room \<open>r\<close>, the resolve that follows shows the new allocation, active and on \<open>r\<close>,
  book has sent the insert and the first query once each, and one more resolve that the
  store answers shows the same allocation.
\<close>

theorem C3_book_then_resolve:
  assumes auth: "auth_user (backend s) = Some user"
    and booked: "fst (insert_allocation
                   \<lparr>student_id_new = id_User user, room_id_new = roomId,
                    start_date_new = now, end_date_new = None\<rparr> (backend s)) = None"
  shows "room_allocations (backend (handleBookRoom now roomId s)) =
           room_allocations (backend s) @
             [\<lparr>id_row = new_id (backend s) (length (room_allocations (backend s))),
               student_id = id_User user, room_id = roomId, start_date_row = now,
               end_date_row = None\<rparr>] \<and>
         (outcomes (backend s) (Suc (length (requests (backend s)))) = Succeed \<and>
          (\<forall>a\<in>set (room_allocations (backend s)).
              student_id a = id_User user \<longrightarrow> start_date_row a < now) \<longrightarrow>
            (\<exists>r. find (\<lambda>r. id_Room r = roomId) (rooms_table (backend s)) = Some r \<and>
                 id_Room r = roomId \<and>
                 currentAllocation (view (handleBookRoom now roomId s)) =
                   Some \<lparr>id_RoomAllocation =
                           new_id (backend s) (length (room_allocations (backend s))),
                         room = r, start_date = now, end_date = None\<rparr> \<and>
                 requests (backend (handleBookRoom now roomId s)) =
                   requests (backend s) @
                     [InsertAllocation \<lparr>student_id_new = id_User user, room_id_new = roomId,
                         start_date_new = now, end_date_new = None\<rparr>,
                      SelectLatestAllocation (id_User user)] \<and>
                 (outcomes (backend s) (Suc (Suc (length (requests (backend s))))) = Succeed \<longrightarrow>
                    currentAllocation
                      (view (fetchCurrentAllocationAndRooms (handleBookRoom now roomId s))) =
                      Some \<lparr>id_RoomAllocation =
                              new_id (backend s) (length (room_allocations (backend s))),
                            room = r, start_date = now, end_date = None\<rparr>)))"
proof -
  let ?new = "\<lparr>id_row = new_id (backend s) (length (room_allocations (backend s))),
               student_id = id_User user, room_id = roomId, start_date_row = now,
               end_date_row = None\<rparr>"
  let ?v = "\<lparr>student_id_new = id_User user, room_id_new = roomId,
                 start_date_new = now, end_date_new = None\<rparr>"
  let ?b = "sent (InsertAllocation ?v)
              ((backend s)\<lparr>room_allocations := room_allocations (backend s) @ [?new]\<rparr>)"
  let ?s = "s\<lparr>view := (view s)\<lparr>bookingInProgress := True\<rparr>, backend := ?b\<rparr>"
  have tabs: "room_allocations ?b = room_allocations (backend s) @ [?new]"
    "rooms_table ?b = rooms_table (backend s)" by (simp_all add: sent_def)
  have book: "handleBookRoom now roomId s =
      setBookingInProgress False (fetchCurrentAllocationAndRooms ?s)"
    by (rule book_inserted [OF auth booked])
  have inserted: "room_allocations (backend (handleBookRoom now roomId s)) =
      room_allocations (backend s) @ [?new]"
    using fetch_keeps_tables [of ?s] by (simp add: book setBookingInProgress_def tabs)
  from insert_allocation_accepted(2) [OF booked]
  have "roomId \<in> id_Room ` set (rooms_table (backend s))" by simp
  from find_room [OF this] obtain r where
    room: "find (\<lambda>r. id_Room r = roomId) (rooms_table (backend s)) = Some r"
    and r: "id_Room r = roomId" by blast
  let ?d = "\<lparr>id_Response = id_row ?new, start_date_Response = now,
             end_date_Response = None, rooms = r\<rparr>"
  let ?shown = "Some \<lparr>id_RoomAllocation = id_row ?new, room = r, start_date = now,
                       end_date = None\<rparr>"
  have resolved:
    "currentAllocation (view (handleBookRoom now roomId s)) = ?shown \<and>
     requests (backend (handleBookRoom now roomId s)) =
       requests (backend s) @ [InsertAllocation ?v, SelectLatestAllocation (id_User user)] \<and>
     (outcomes (backend s) (Suc (Suc (length (requests (backend s))))) = Succeed \<longrightarrow>
        currentAllocation (view (fetchCurrentAllocationAndRooms (handleBookRoom now roomId s))) =
          ?shown)"
    if qry: "outcomes (backend s) (Suc (length (requests (backend s)))) = Succeed"
      and earlier: "\<forall>a\<in>set (room_allocations (backend s)).
                      student_id a = id_User user \<longrightarrow> start_date_row a < now"
  proof -
    have jn: "join_room (rooms_table ?b) ?new = Some ?d"
      using room by (simp add: join_room_def tabs)
    have "?new \<in> set (room_allocations ?b)" by (simp add: tabs)
    from latest_allocation_exists [OF this _ jn] obtain d where
      d: "latest_allocation ?b (id_User user) = Some d" by auto
    from latest_allocation_SomeD [OF d] obtain a where
      a: "a \<in> set (room_allocations ?b)" "student_id a = id_User user"
         "join_room (rooms_table ?b) a = Some d"
         "\<forall>a'\<in>set (room_allocations ?b). \<forall>d'. student_id a' = id_User user \<longrightarrow>
                 join_room (rooms_table ?b) a' = Some d' \<longrightarrow> start_date_row a' \<le> start_date_row a"
      by blast
    from a(4) jn have "now \<le> start_date_row a" by (auto simp: tabs)
    with a(1,2) earlier have "a = ?new" by (auto simp: tabs)
    with a(3) jn have dd: "d = ?d" by simp
    have auth': "auth_user (backend ?s) = Some user" using auth by (simp add: sent_def)
    have oc': "next_outcome (backend ?s) = Succeed"
      using qry by (simp add: next_outcome_def sent_def)
    have d': "latest_allocation (backend ?s) (id_User user) = Some ?d" using d dd by simp
    let ?s' = "?s\<lparr>backend := sent (SelectLatestAllocation (id_User user)) (backend ?s),
         view := (view ?s)\<lparr>loading := False,
            currentAllocation := Some \<lparr>id_RoomAllocation = id_Response ?d, room = rooms ?d,
               start_date = start_date_Response ?d, end_date = end_date_Response ?d\<rparr>\<rparr>\<rparr>"
    have "fetchCurrentAllocationAndRooms ?s = ?s'"
      by (rule fetch_found [OF auth' oc' d'])
    with book have eq: "handleBookRoom now roomId s = setBookingInProgress False ?s'" by simp
    have again:
      "currentAllocation (view (fetchCurrentAllocationAndRooms (handleBookRoom now roomId s))) =
         ?shown"
      if third: "outcomes (backend s) (Suc (Suc (length (requests (backend s))))) = Succeed"
    proof -
      let ?t = "handleBookRoom now roomId s"
      have bt: "backend ?t = sent (SelectLatestAllocation (id_User user)) ?b"
        by (simp add: eq setBookingInProgress_def)
      have t1: "auth_user (backend ?t) = Some user" using auth by (simp add: bt sent_def)
      have t2: "next_outcome (backend ?t) = Succeed"
        using third by (simp add: bt next_outcome_def sent_def)
      have t3: "latest_allocation (backend ?t) (id_User user) = Some ?d"
        using d dd by (simp add: bt latest_allocation_sent)
      show ?thesis by (simp add: fetch_found [OF t1 t2 t3])
    qed
    from again show ?thesis by (simp add: eq setBookingInProgress_def sent_def)
  qed
  from inserted room r resolved show ?thesis by auto
qed

theorem C3_book_then_resolve_witness:
  "room_allocations (backend (handleBookRoom 50 ''R2''
      (mounted (example_backend (Some studentA) [past_stay] (then_outcome NullData (always Succeed)))))) =
     [past_stay,
      \<lparr>id_row = ''nn'', student_id = ''studentA'', room_id = ''R2'', start_date_row = 50,
        end_date_row = None\<rparr>] \<and>
   currentAllocation (view (handleBookRoom 50 ''R2''
      (mounted (example_backend (Some studentA) [past_stay] (then_outcome NullData (always Succeed)))))) =
     Some \<lparr>id_RoomAllocation = ''nn'', room = R2, start_date = 50, end_date = None\<rparr> \<and>
   currentAllocation (view (fetchCurrentAllocationAndRooms (handleBookRoom 50 ''R2''
      (mounted (example_backend (Some studentA) [past_stay] (then_outcome NullData (always Succeed))))))) =
     Some \<lparr>id_RoomAllocation = ''nn'', room = R2, start_date = 50, end_date = None\<rparr>"
proof -
  let ?s = "mounted (example_backend (Some studentA) [past_stay] (then_outcome NullData (always Succeed)))"
  have h1: "auth_user (backend ?s) = Some studentA" by (simp add: example_defs)
  have h2: "fst (insert_allocation
                   \<lparr>student_id_new = id_User studentA, room_id_new = ''R2'',
                    start_date_new = 50, end_date_new = None\<rparr> (backend ?s)) = None"
    by (simp add: example_defs insert_allocation_def next_outcome_def)
  have h3: "outcomes (backend ?s) (Suc (length (requests (backend ?s)))) = Succeed"
    by (simp add: example_defs)
  have h4: "\<forall>a\<in>set (room_allocations (backend ?s)).
               student_id a = id_User studentA \<longrightarrow> start_date_row a < 50"
    by (simp add: example_defs)
  have h5: "outcomes (backend ?s) (Suc (Suc (length (requests (backend ?s))))) = Succeed"
    by (simp add: example_defs)
  have h6: "find (\<lambda>r. id_Room r = ''R2'') (rooms_table (backend ?s)) = Some R2"
    by (simp add: example_defs)
  from C3_book_then_resolve [OF h1 h2] h3 h4 h5 h6 show ?thesis
    by (auto simp: example_defs)
qed

text \<open>
  The claim C3 as it is written, for every authenticated identity, fails: student A holds an
  allocation of R2 that starts at 100 and has no end, and books R1 at time 50. The insert
  succeeds, and resolve shows the allocation of R2, which starts later: it does not
  reference R1.
\<close>

theorem C3_book_counterexample:
  "auth_user (backend (mounted (example_backend (Some studentA) [future_stay] (always Succeed)))) =
     Some studentA \<and>
   room_allocations (backend (handleBookRoom 50 ''R1''
      (mounted (example_backend (Some studentA) [future_stay] (always Succeed))))) =
     [future_stay,
      \<lparr>id_row = ''nn'', student_id = ''studentA'', room_id = ''R1'', start_date_row = 50,
        end_date_row = None\<rparr>] \<and>
   error (view (handleBookRoom 50 ''R1''
      (mounted (example_backend (Some studentA) [future_stay] (always Succeed))))) = None \<and>
   currentAllocation (view (handleBookRoom 50 ''R1''
      (mounted (example_backend (Some studentA) [future_stay] (always Succeed))))) =
     Some \<lparr>id_RoomAllocation = ''g'', room = R2, start_date = 100, end_date = None\<rparr> \<and>
   currentAllocation (view (fetchCurrentAllocationAndRooms (handleBookRoom 50 ''R1''
      (mounted (example_backend (Some studentA) [future_stay] (always Succeed)))))) =
     Some \<lparr>id_RoomAllocation = ''g'', room = R2, start_date = 100, end_date = None\<rparr>"
  by (simp add: example_defs all_defs)

text \<open>
  Claim C4 asks that, with rooms R1 and R2 and no allocation, resolve for student A list R1
  and R2 and, after A has booked R1, resolve for student B list R2. The program does
  neither, for the reason given at claim C2: both resolves end with
  \<^verbatim>\<open>Failed to fetch room details\<close> and an empty list, where the rooms free of an open
  allocation are R1 and R2, then R2. The booking itself inserts one open allocation, and
  resolve for student A then shows it, on R1.
\<close>

theorem C4_scenario_rooms_query_refused:
  "rooms_not_allocated (backend scenario_resolved) = [R1, R2] \<and>
   availableRooms (view scenario_resolved) = [] \<and>
   error (view scenario_resolved) = Some ''Failed to fetch room details'' \<and>
   requests (backend scenario_resolved) =
     [SelectLatestAllocation ''studentA'', SelectAvailableRooms QueryBuilder] \<and>
   room_allocations (backend (scenario_booked now)) =
     [\<lparr>id_row = ''n'', student_id = ''studentA'', room_id = ''R1'', start_date_row = now,
       end_date_row = None\<rparr>] \<and>
   currentAllocation (view (fetchCurrentAllocationAndRooms (scenario_booked now))) =
     Some \<lparr>id_RoomAllocation = ''n'', room = R1, start_date = now, end_date = None\<rparr> \<and>
   rooms_not_allocated (backend (scenario_other now)) = [R2] \<and>
   availableRooms (view (scenario_other now)) = [] \<and>
   error (view (scenario_other now)) = Some ''Failed to fetch room details''"
  by (auto simp add: scenario_defs example_defs all_defs)

text \<open>
  Claim C5. When nobody is authenticated, book leaves the backend as it was (no request is
  sent, no row inserted), logs the error \<^verbatim>\<open>Not authenticated\<close>, and shows the booking
  failure message, for every room identifier.
\<close>

theorem C5_book_unauthenticated:
  assumes "auth_user (backend s) = None"
  shows "backend (handleBookRoom now roomId s) = backend s \<and>
         console (handleBookRoom now roomId s) =
           console s @ [(''Error booking room:'', Error ''Not authenticated'')] \<and>
         view (handleBookRoom now roomId s) =
           (view s)\<lparr>error := Some ''Failed to book room. Please try again.'',
                     bookingInProgress := False\<rparr>"
  by (simp add: book_unauthenticated [OF assms])

theorem C5_book_unauthenticated_witness:
  "room_allocations (backend (handleBookRoom 50 ''R1''
      (mounted (example_backend None [past_stay] (always Succeed))))) = [past_stay] \<and>
   requests (backend (handleBookRoom 50 ''R1''
      (mounted (example_backend None [past_stay] (always Succeed))))) = [] \<and>
   error (view (handleBookRoom 50 ''R1''
      (mounted (example_backend None [past_stay] (always Succeed))))) =
     Some ''Failed to book room. Please try again.''"
proof -
  let ?s = "mounted (example_backend None [past_stay] (always Succeed))"
  have h: "auth_user (backend ?s) = None" by (simp add: example_defs)
  show ?thesis using C5_book_unauthenticated [OF h, of 50 "''R1''"] by (simp add: example_defs)
qed

text \<open>
  Claim C6. For an authenticated identity, if the store fails the first query, or answers
  it with no allocation and fails the second, resolve logs the store's error, shows
  \<^verbatim>\<open>Failed to fetch room details\<close>, changes neither the current allocation nor the list of
  available rooms, and has sent each query at most once, none after the failure.
\<close>

theorem C6_resolve_query_failure:
  assumes auth: "auth_user (backend s) = Some user"
  shows "(next_outcome (backend s) = Fail e \<longrightarrow>
            view (fetchCurrentAllocationAndRooms s) =
              (view s)\<lparr>loading := False, error := Some ''Failed to fetch room details''\<rparr> \<and>
            console (fetchCurrentAllocationAndRooms s) =
              console s @ [(''Error fetching allocation:'', Thrown e), (''Error:'', Thrown e)] \<and>
            requests (backend (fetchCurrentAllocationAndRooms s)) =
              requests (backend s) @ [SelectLatestAllocation (id_User user)]) \<and>
         (fst (select_latest_allocation (id_User user) (backend s)) = (None, None) \<and>
          outcomes (backend s) (Suc (length (requests (backend s)))) = Fail e \<longrightarrow>
            view (fetchCurrentAllocationAndRooms s) =
              (view s)\<lparr>loading := False, error := Some ''Failed to fetch room details''\<rparr> \<and>
            console (fetchCurrentAllocationAndRooms s) =
              console s @ [(''Error fetching rooms:'', Thrown e), (''Error:'', Thrown e)] \<and>
            requests (backend (fetchCurrentAllocationAndRooms s)) =
              requests (backend s) @ [SelectLatestAllocation (id_User user), SelectAvailableRooms QueryBuilder])"
proof (intro conjI impI)
  assume "next_outcome (backend s) = Fail e"
  from fetch_first_query_fails [OF auth this]
  show "view (fetchCurrentAllocationAndRooms s) =
              (view s)\<lparr>loading := False, error := Some ''Failed to fetch room details''\<rparr>"
    and "console (fetchCurrentAllocationAndRooms s) =
              console s @ [(''Error fetching allocation:'', Thrown e), (''Error:'', Thrown e)]"
    and "requests (backend (fetchCurrentAllocationAndRooms s)) =
              requests (backend s) @ [SelectLatestAllocation (id_User user)]"
    by (simp_all add: sent_def)
next
  assume a: "fst (select_latest_allocation (id_User user) (backend s)) = (None, None) \<and>
          outcomes (backend s) (Suc (length (requests (backend s)))) = Fail e"
  with fetch_no_allocation [OF auth]
  show "view (fetchCurrentAllocationAndRooms s) =
              (view s)\<lparr>loading := False, error := Some ''Failed to fetch room details''\<rparr>"
    and "console (fetchCurrentAllocationAndRooms s) =
              console s @ [(''Error fetching rooms:'', Thrown e), (''Error:'', Thrown e)]"
    and "requests (backend (fetchCurrentAllocationAndRooms s)) =
              requests (backend s) @ [SelectLatestAllocation (id_User user), SelectAvailableRooms QueryBuilder]"
    by (simp_all add: sent_def)
qed

theorem C6_resolve_query_failure_witness:
  "error (view (fetchCurrentAllocationAndRooms
      (mounted (example_backend (Some studentA) [open_stay]
         (always (Fail (PostgrestError ''timeout''))))))) = Some ''Failed to fetch room details'' \<and>
   currentAllocation (view (fetchCurrentAllocationAndRooms
      (mounted (example_backend (Some studentA) [open_stay]
         (always (Fail (PostgrestError ''timeout''))))))) = None \<and>
   availableRooms (view (fetchCurrentAllocationAndRooms
      (mounted (example_backend (Some studentB) [open_stay]
         (then_outcome Succeed (always (Fail (PostgrestError ''timeout'')))))))) = [] \<and>
   requests (backend (fetchCurrentAllocationAndRooms
      (mounted (example_backend (Some studentB) [open_stay]
         (then_outcome Succeed (always (Fail (PostgrestError ''timeout'')))))))) =
     [SelectLatestAllocation ''studentB'', SelectAvailableRooms QueryBuilder]"
proof -
  let ?s = "mounted (example_backend (Some studentA) [open_stay]
         (always (Fail (PostgrestError ''timeout''))))"
  let ?t = "mounted (example_backend (Some studentB) [open_stay]
         (then_outcome Succeed (always (Fail (PostgrestError ''timeout'')))))"
  have s1: "auth_user (backend ?s) = Some studentA" by (simp add: example_defs)
  have s2: "next_outcome (backend ?s) = Fail (PostgrestError ''timeout'')"
    by (simp add: example_defs next_outcome_def)
  have t1: "auth_user (backend ?t) = Some studentB" by (simp add: example_defs)
  have t2: "fst (select_latest_allocation (id_User studentB) (backend ?t)) = (None, None)"
    by (simp add: example_defs select_latest_allocation_def next_outcome_def latest_allocation_def
        List.map_filter_def maybeSingle_def order_start_date_desc_def)
  have t3: "outcomes (backend ?t) (Suc (length (requests (backend ?t)))) = Fail (PostgrestError ''timeout'')"
    by (simp add: example_defs)
  show ?thesis
    using C6_resolve_query_failure [OF s1, of "PostgrestError ''timeout''"] s2
      C6_resolve_query_failure [OF t1, of "PostgrestError ''timeout''"] t2 t3
    by (simp add: example_defs)
qed

text \<open>
  Claim C7. For an authenticated identity and any room identifier, if the insert reports
  an error, whatever the reason (the network, or the store refusing the row), book logs
  that error, shows \<^verbatim>\<open>Failed to book room. Please try again.\<close>, has sent the insert once and
  nothing else, and the table of allocations is as it was.
\<close>

theorem C7_book_insert_failure:
  assumes "auth_user (backend s) = Some user"
    and "fst (insert_allocation
                \<lparr>student_id_new = id_User user, room_id_new = roomId,
                 start_date_new = now, end_date_new = None\<rparr> (backend s)) = Some e"
  shows "view (handleBookRoom now roomId s) =
           (view s)\<lparr>error := Some ''Failed to book room. Please try again.'',
                     bookingInProgress := False\<rparr> \<and>
         console (handleBookRoom now roomId s) = console s @ [(''Error booking room:'', Thrown e)] \<and>
         requests (backend (handleBookRoom now roomId s)) =
           requests (backend s) @
             [InsertAllocation \<lparr>student_id_new = id_User user, room_id_new = roomId,
                 start_date_new = now, end_date_new = None\<rparr>] \<and>
         room_allocations (backend (handleBookRoom now roomId s)) = room_allocations (backend s)"
  by (simp add: book_insert_fails [OF assms] sent_def)

theorem C7_book_insert_failure_witness:
  "error (view (handleBookRoom 50 ''R2''
      (mounted (example_backend (Some studentB) [open_stay]
         (always (Fail (PostgrestError ''duplicate key''))))))) =
     Some ''Failed to book room. Please try again.'' \<and>
   console (handleBookRoom 50 ''R2''
      (mounted (example_backend (Some studentB) [open_stay]
         (always (Fail (PostgrestError ''duplicate key'')))))) =
     [(''Error booking room:'', Thrown (PostgrestError ''duplicate key''))] \<and>
   room_allocations (backend (handleBookRoom 50 ''R2''
      (mounted (example_backend (Some studentB) [open_stay]
         (always (Fail (PostgrestError ''duplicate key''))))))) = [open_stay] \<and>
   console (handleBookRoom 50 ''R9''
      (mounted (example_backend (Some studentB) [open_stay] (always Succeed)))) =
     [(''Error booking room:'', Thrown foreign_key_violation)] \<and>
   requests (backend (handleBookRoom 50 ''R9''
      (mounted (example_backend (Some studentB) [open_stay] (always Succeed))))) =
     [InsertAllocation \<lparr>student_id_new = ''studentB'', room_id_new = ''R9'',
         start_date_new = 50, end_date_new = None\<rparr>]"
proof -
  let ?s = "mounted (example_backend (Some studentB) [open_stay]
         (always (Fail (PostgrestError ''duplicate key''))))"
  let ?t = "mounted (example_backend (Some studentB) [open_stay] (always Succeed))"
  have s1: "auth_user (backend ?s) = Some studentB" by (simp add: example_defs)
  have s2: "fst (insert_allocation
                \<lparr>student_id_new = id_User studentB, room_id_new = ''R2'',
                 start_date_new = 50, end_date_new = None\<rparr> (backend ?s)) =
              Some (PostgrestError ''duplicate key'')"
    by (simp add: example_defs insert_allocation_def next_outcome_def)
  have t1: "auth_user (backend ?t) = Some studentB" by (simp add: example_defs)
  have t2: "fst (insert_allocation
                \<lparr>student_id_new = id_User studentB, room_id_new = ''R9'',
                 start_date_new = 50, end_date_new = None\<rparr> (backend ?t)) =
              Some foreign_key_violation"
    by (simp add: example_defs insert_allocation_def next_outcome_def)
  show ?thesis
    using C7_book_insert_failure [OF s1 s2] C7_book_insert_failure [OF t1 t2]
    by (simp add: example_defs)
qed

text \<open>
  Claim C8. After resolve the loading flag is false and after book the flag
  \<^verbatim>\<open>bookingInProgress\<close> is false, from every state and whatever the store answers. Both
  handlers are total functions of the state, so every execution completes.
\<close>

theorem C8_flags_cleared:
  "loading (view (fetchCurrentAllocationAndRooms s)) = False \<and>
   bookingInProgress (view (handleBookRoom now roomId s)) = False"
  by (simp add: fetchCurrentAllocationAndRooms_def handleBookRoom_def setLoading_def
      setBookingInProgress_def Let_def split: prod.splits)

text \<open>
  Claim C9. When the first query of resolve yields an allocation, the only request sent is
  that query, and the list of available rooms is as before. When the \<^verbatim>\<open>try\<close> block of
  resolve throws, the cells afterwards are the earlier ones with the error message set and
  the loading flag cleared: the current allocation and the available rooms are as before.
\<close>

theorem C9_resolve_frame:
  "(auth_user (backend s) = Some user \<and>
    fst (select_latest_allocation (id_User user) (backend s)) = (Some d, None) \<longrightarrow>
      requests (backend (fetchCurrentAllocationAndRooms s)) =
        requests (backend s) @ [SelectLatestAllocation (id_User user)] \<and>
      availableRooms (view (fetchCurrentAllocationAndRooms s)) = availableRooms (view s)) \<and>
   (fst (fetch_try s) = Some err \<longrightarrow>
      view (fetchCurrentAllocationAndRooms s) =
        (view s)\<lparr>loading := False, error := Some ''Failed to fetch room details''\<rparr> \<and>
      currentAllocation (view (fetchCurrentAllocationAndRooms s)) = currentAllocation (view s) \<and>
      availableRooms (view (fetchCurrentAllocationAndRooms s)) = availableRooms (view s))"
proof (intro conjI impI)
  assume a: "auth_user (backend s) = Some user \<and>
    fst (select_latest_allocation (id_User user) (backend s)) = (Some d, None)"
  then have "next_outcome (backend s) = Succeed" "latest_allocation (backend s) (id_User user) = Some d"
    by (simp_all add: select_latest_found)
  with a fetch_found [of s user d]
  show "requests (backend (fetchCurrentAllocationAndRooms s)) =
        requests (backend s) @ [SelectLatestAllocation (id_User user)]"
    and "availableRooms (view (fetchCurrentAllocationAndRooms s)) = availableRooms (view s)"
    by (simp_all add: sent_def)
next
  assume "fst (fetch_try s) = Some err"
  from fetch_failed_view [OF this]
  show "view (fetchCurrentAllocationAndRooms s) =
        (view s)\<lparr>loading := False, error := Some ''Failed to fetch room details''\<rparr>"
    and "currentAllocation (view (fetchCurrentAllocationAndRooms s)) = currentAllocation (view s)"
    and "availableRooms (view (fetchCurrentAllocationAndRooms s)) = availableRooms (view s)"
    by simp_all
qed

theorem C9_resolve_frame_witness:
  "requests (backend (fetchCurrentAllocationAndRooms
      ((mounted (example_backend (Some studentA) [past_stay, open_stay] (always Succeed)))
       \<lparr>view := initial_view\<lparr>availableRooms := [R1]\<rparr>\<rparr>))) = [SelectLatestAllocation ''studentA''] \<and>
   availableRooms (view (fetchCurrentAllocationAndRooms
      ((mounted (example_backend (Some studentA) [past_stay, open_stay] (always Succeed)))
       \<lparr>view := initial_view\<lparr>availableRooms := [R1]\<rparr>\<rparr>))) = [R1] \<and>
   availableRooms (view (fetchCurrentAllocationAndRooms
      ((mounted (example_backend (Some studentB) [open_stay]
          (then_outcome Succeed (always (Fail (PostgrestError ''timeout''))))))
       \<lparr>view := initial_view\<lparr>availableRooms := [R1, R2]\<rparr>\<rparr>))) = [R1, R2] \<and>
   error (view (fetchCurrentAllocationAndRooms
      ((mounted (example_backend (Some studentB) [open_stay]
          (then_outcome Succeed (always (Fail (PostgrestError ''timeout''))))))
       \<lparr>view := initial_view\<lparr>availableRooms := [R1, R2]\<rparr>\<rparr>))) =
     Some ''Failed to fetch room details''"
proof -
  let ?s = "(mounted (example_backend (Some studentA) [past_stay, open_stay] (always Succeed)))
       \<lparr>view := initial_view\<lparr>availableRooms := [R1]\<rparr>\<rparr>"
  let ?t = "(mounted (example_backend (Some studentB) [open_stay]
          (then_outcome Succeed (always (Fail (PostgrestError ''timeout''))))))
       \<lparr>view := initial_view\<lparr>availableRooms := [R1, R2]\<rparr>\<rparr>"
  let ?d = "\<lparr>id_Response = ''q'', start_date_Response = 20, end_date_Response = None, rooms = R2\<rparr>"
  have s1: "auth_user (backend ?s) = Some studentA" by (simp add: example_defs)
  have s2: "fst (select_latest_allocation (id_User studentA) (backend ?s)) = (Some ?d, None)"
    by (simp add: example_defs select_latest_allocation_def next_outcome_def latest_allocation_def
        List.map_filter_def maybeSingle_def order_start_date_desc_def join_room_def)
  have t1: "fst (fetch_try ?t) = Some (Thrown (PostgrestError ''timeout''))"
    by (simp add: example_defs all_defs)
  show ?thesis
    using C9_resolve_frame [of ?s studentA ?d] C9_resolve_frame [of ?t _ _ "Thrown (PostgrestError ''timeout'')"]
      s1 s2 t1
    by (simp add: example_defs)
qed

text \<open>
  Claim C10. When nobody is authenticated, resolve leaves the backend as it was, so that no
  request reaches the store, and shows \<^verbatim>\<open>Failed to fetch room details\<close>; started from the same
  cells, a resolve that a store error aborts ends in the very same cells.
\<close>

theorem C10_resolve_unauthenticated:
  assumes unauth: "auth_user (backend s) = None"
    and failed: "fst (fetch_try t) = Some (Thrown e)"
    and same: "view t = view s"
  shows "backend (fetchCurrentAllocationAndRooms s) = backend s \<and>
         requests (backend (fetchCurrentAllocationAndRooms s)) = requests (backend s) \<and>
         console (fetchCurrentAllocationAndRooms s) =
           console s @ [(''Error:'', Error ''Not authenticated'')] \<and>
         error (view (fetchCurrentAllocationAndRooms s)) = Some ''Failed to fetch room details'' \<and>
         view (fetchCurrentAllocationAndRooms s) = view (fetchCurrentAllocationAndRooms t)"
  using fetch_unauthenticated [OF unauth] fetch_failed_view [OF failed] same by simp

theorem C10_resolve_unauthenticated_witness:
  "requests (backend (fetchCurrentAllocationAndRooms
      (mounted (example_backend None [open_stay] (always Succeed))))) = [] \<and>
   view (fetchCurrentAllocationAndRooms
      (mounted (example_backend None [open_stay] (always Succeed)))) =
   view (fetchCurrentAllocationAndRooms
      (mounted (example_backend (Some studentA) [open_stay]
         (always (Fail (PostgrestError ''timeout''))))))"
proof -
  let ?s = "mounted (example_backend None [open_stay] (always Succeed))"
  let ?t = "mounted (example_backend (Some studentA) [open_stay]
         (always (Fail (PostgrestError ''timeout''))))"
  have h1: "auth_user (backend ?s) = None" by (simp add: example_defs)
  have h2: "fst (fetch_try ?t) = Some (Thrown (PostgrestError ''timeout''))"
    by (simp add: example_defs all_defs)
  have h3: "view ?t = view ?s" by (simp add: example_defs)
  show ?thesis using C10_resolve_unauthenticated [OF h1 h2 h3] by (simp add: example_defs)
qed

end
